theory Spec2Isabelle
  imports Main
begin

section \<open>Data model\<close>

text \<open>
  The rows of the two tables and the request and response schemas of
  \<^verbatim>\<open>app/routers/class_.py\<close>. Their declarations (\<^verbatim>\<open>app.models\<close>) are not part
  of the sources at hand; the fields are the ones the handlers read and write. Field names
  of the notice records carry a prefix, since a HOL record field is a global constant.
  Timestamps are integers (seconds), identifiers of notices are Python integers.
\<close>

record Class =
  class_id :: string
  class_name :: string
  teacher_id :: string
  created_at :: int

record ClassNotice =
  notice_id :: int
  notice_class_id :: string
  notice_message :: string
  notice_created_at :: int
  notice_updated_at :: int

record ClassReq =
  req_className :: string
  req_teacherId :: string

record ClassNoticeReq =
  req_message :: string

record ClassResp =
  classId :: string
  className :: string
  teacherId :: string
  createdAt :: int

record ClassNoticeResp =
  resp_id :: int
  resp_classId :: string
  resp_message :: string
  resp_createdAt :: int
  resp_updatedAt :: int

text \<open>The errors the handlers raise, and the two a Python attribute access or iteration
  raises on a value of the wrong shape.\<close>

datatype error =
    ClassCreationFailed
  | ClassNotFoundException
  | ClassNoticeCreationFailed
  | ClassNoticeNotFound
  | ClassNoticeUpdateFailed
  | ClassNoticeDeleteFailed
  | AttributeError
  | TypeError

text \<open>The database: the two tables, each a list of rows in storage order.\<close>

record db =
  classes :: "Class list"
  notices :: "ClassNotice list"

definition class_resp :: "Class \<Rightarrow> ClassResp" where
  "class_resp r =
     \<lparr>classId = class_id r, className = class_name r,
      teacherId = teacher_id r, createdAt = created_at r\<rparr>"

definition notice_resp :: "ClassNotice \<Rightarrow> ClassNoticeResp" where
  "notice_resp r =
     \<lparr>resp_id = notice_id r, resp_classId = notice_class_id r,
      resp_message = notice_message r, resp_createdAt = notice_created_at r,
      resp_updatedAt = notice_updated_at r\<rparr>"


section \<open>The cache\<close>

text \<open>
  What the read handlers store in the cache and get back from it: Python's \<^verbatim>\<open>None\<close>,
  one \<^verbatim>\<open>Class\<close> row, or a list of them.
\<close>

datatype pyval = PyNone | PyClass Class | PyClassList "Class list"

text \<open>Python truthiness: \<^verbatim>\<open>None\<close> and the empty list are false, a model instance
  (no \<^verbatim>\<open>__bool__\<close>, no \<^verbatim>\<open>__len__\<close>) is true.\<close>

fun truthy :: "pyval \<Rightarrow> bool" where
  "truthy PyNone = False"
| "truthy (PyClass _) = True"
| "truthy (PyClassList rows) = (rows \<noteq> [])"

text \<open>
  Modelled from the spec: \<^verbatim>\<open>redis_cache\<close> (\<^verbatim>\<open>app.core.redis\<close>) is not part of the
  sources at hand. A cache entry is a value with its expiry timestamp; \<^verbatim>\<open>set\<close> stores
  the value with expiry \<open>now + ttl\<close> and overwrites; \<^verbatim>\<open>get\<close> returns the value of an
  entry that is present and not expired and signals absence otherwise, by \<^verbatim>\<open>None\<close>,
  the value the handlers test for; \<^verbatim>\<open>exists\<close> is true for an entry that is present
  and not expired. The clock is the last argument of each operation.
\<close>

type_synonym redis = "string \<rightharpoonup> (pyval \<times> int)"

definition redis_cache_get :: "redis \<Rightarrow> string \<Rightarrow> int \<Rightarrow> pyval" where
  "redis_cache_get cache key now =
     (case cache key of
        None \<Rightarrow> PyNone
      | Some (v, expiry) \<Rightarrow> if now < expiry then v else PyNone)"

definition redis_cache_exists :: "redis \<Rightarrow> string \<Rightarrow> int \<Rightarrow> bool" where
  "redis_cache_exists cache key now =
     (case cache key of
        None \<Rightarrow> False
      | Some (v, expiry) \<Rightarrow> now < expiry)"

definition redis_cache_set :: "redis \<Rightarrow> string \<Rightarrow> pyval \<Rightarrow> int \<Rightarrow> int \<Rightarrow> redis" where
  "redis_cache_set cache key v ttl now = cache(key \<mapsto> (v, now + ttl))"


section \<open>The read handlers with a cache\<close>

text \<open>
  \<^verbatim>\<open>.scalar()\<close>: the first row of a result, or \<^verbatim>\<open>None\<close>.
\<close>

definition scalar :: "'a list \<Rightarrow> 'a option" where
  "scalar rows = (case rows of [] \<Rightarrow> None | r # _ \<Rightarrow> Some r)"

definition select_class :: "string \<Rightarrow> db \<Rightarrow> Class list" where
  "select_class cid d = filter (\<lambda>r. class_id r = cid) (classes d)"

text \<open>
  A read handler returns its outcome, the cache it leaves, and the number of database
  sessions it opened. \<^verbatim>\<open>key_builder\<close> (\<^verbatim>\<open>app.core.redis\<close>, not part of the sources at
  hand) is the parameter \<open>kb\<close>, from an operation name and its arguments to a key. Each
  handler calls the cache twice, and the clock may advance between the two awaits:
  \<open>t1\<close> is the time of the first call, \<open>t2\<close> the time of the second.
\<close>

definition read_class_list ::
  "(string \<Rightarrow> string list \<Rightarrow> string) \<Rightarrow> int \<Rightarrow> int \<Rightarrow> redis \<Rightarrow> db
     \<Rightarrow> (error + ClassResp list) \<times> redis \<times> nat" where
  "read_class_list kb t1 t2 cache d =
     (let key = kb ''read_class_list'' [];
          (result, cache', queries) =
            (if redis_cache_exists cache key t1
             then (redis_cache_get cache key t2, cache, 0)
             else (let result = PyClassList (classes d)
                   in (result,
                       if result \<noteq> PyNone then redis_cache_set cache key result 60 t2
                       else cache,
                       1)))
      in (case result of
            PyNone \<Rightarrow> Inl ClassNotFoundException
          | PyClassList rows \<Rightarrow> Inr (map class_resp rows)
          | PyClass _ \<Rightarrow> Inl TypeError,
          cache', queries))"

definition read_class ::
  "(string \<Rightarrow> string list \<Rightarrow> string) \<Rightarrow> string \<Rightarrow> int \<Rightarrow> int \<Rightarrow> redis \<Rightarrow> db
     \<Rightarrow> (error + ClassResp) \<times> redis \<times> nat" where
  "read_class kb cid t1 t2 cache d =
     (let key = kb ''read_class'' [cid];
          (result, cache', queries) =
            (if truthy (redis_cache_get cache key t1)
             then (redis_cache_get cache key t2, cache, 0)
             else (let result = (case scalar (select_class cid d) of
                                   None \<Rightarrow> PyNone | Some r \<Rightarrow> PyClass r)
                   in (result, redis_cache_set cache key result 60 t2, 1)))
      in (case result of
            PyNone \<Rightarrow> Inl ClassNotFoundException
          | PyClass r \<Rightarrow> Inr (class_resp r)
          | PyClassList _ \<Rightarrow> Inl AttributeError,
          cache', queries))"


section \<open>The unit of work\<close>

text \<open>
  Modelled from the spec: \<^verbatim>\<open>AsyncScopedSession\<close> (\<^verbatim>\<open>app.core.db.session\<close>) is not
  part of the sources at hand. A session holds the committed database, the working copy
  its statements act on, and the log of the calls made on it. Entering a scope opens a
  session on the committed database; leaving it commits after a normal end of the block
  and rolls back after an exception. A statement or a commit that the store rejects is
  chosen by the \<open>fault\<close> argument: a rejected statement leaves the working copy as it
  was, a rejected commit leaves the committed database as it was.
\<close>

datatype event = ScopeEnter | Execute | Commit | Rollback | ScopeExit bool

datatype fault = NoFault | ExecuteRaises | CommitRaises

record session =
  committed :: db
  working :: db
  events :: "event list"

definition enter_scope :: "db \<Rightarrow> session" where
  "enter_scope d = \<lparr>committed = d, working = d, events = [ScopeEnter]\<rparr>"

definition exit_scope :: "bool \<Rightarrow> session \<Rightarrow> session" where
  "exit_scope normal s =
     (if normal
      then s\<lparr>committed := working s, events := events s @ [ScopeExit True]\<rparr>
      else s\<lparr>working := committed s, events := events s @ [ScopeExit False]\<rparr>)"

definition session_execute ::
  "fault \<Rightarrow> (db \<Rightarrow> 'r list \<times> db) \<Rightarrow> session \<Rightarrow> 'r list option \<times> session" where
  "session_execute flt stmt s =
     (if flt = ExecuteRaises
      then (None, s\<lparr>events := events s @ [Execute]\<rparr>)
      else (let (rows, w) = stmt (working s)
            in (Some rows, s\<lparr>working := w, events := events s @ [Execute]\<rparr>)))"

definition session_commit :: "fault \<Rightarrow> session \<Rightarrow> bool \<times> session" where
  "session_commit flt s =
     (if flt = CommitRaises
      then (False, s\<lparr>events := events s @ [Commit]\<rparr>)
      else (True, s\<lparr>committed := working s, events := events s @ [Commit]\<rparr>))"

definition session_rollback :: "session \<Rightarrow> session" where
  "session_rollback s = s\<lparr>working := committed s, events := events s @ [Rollback]\<rparr>"

subsection \<open>The statements\<close>

text \<open>Each statement maps the working copy to the rows it returns
  (\<^verbatim>\<open>.returning(...)\<close>) and the working copy it leaves.\<close>

definition insert_class :: "Class \<Rightarrow> db \<Rightarrow> Class list \<times> db" where
  "insert_class r d = ([r], d\<lparr>classes := classes d @ [r]\<rparr>)"

definition insert_notice :: "ClassNotice \<Rightarrow> db \<Rightarrow> ClassNotice list \<times> db" where
  "insert_notice r d = ([r], d\<lparr>notices := notices d @ [r]\<rparr>)"

definition matches :: "int \<Rightarrow> string \<Rightarrow> ClassNotice \<Rightarrow> bool" where
  "matches nid cid r \<longleftrightarrow> notice_id r = nid \<and> notice_class_id r = cid"

definition update_notice ::
  "int \<Rightarrow> string \<Rightarrow> string \<Rightarrow> int \<Rightarrow> db \<Rightarrow> ClassNotice list \<times> db" where
  "update_notice nid cid msg now d =
     (let rows = map (\<lambda>r. if matches nid cid r
                          then r\<lparr>notice_message := msg, notice_updated_at := now\<rparr>
                          else r) (notices d)
      in (filter (matches nid cid) rows, d\<lparr>notices := rows\<rparr>))"

definition delete_notice :: "int \<Rightarrow> string \<Rightarrow> db \<Rightarrow> ClassNotice list \<times> db" where
  "delete_notice nid cid d =
     (filter (matches nid cid) (notices d),
      d\<lparr>notices := filter (\<lambda>r. \<not> matches nid cid r) (notices d)\<rparr>)"

text \<open>\<^verbatim>\<open>select(ClassNotice).where(...).order_by(ClassNotice.created_at.desc())\<close>:
  the rows of one class, latest first.\<close>

definition select_notices :: "string \<Rightarrow> db \<Rightarrow> ClassNotice list" where
  "select_notices cid d =
     sort_key (\<lambda>r. - notice_created_at r)
       (filter (\<lambda>r. notice_class_id r = cid) (notices d))"

subsection \<open>The handlers\<close>

text \<open>
  The write handlers return their outcome and the session as the scope leaves it; the
  next request starts from its committed database. The one read handler without a cache
  leaves the database as it is and returns its outcome only. \<open>uuid\<close> is the value of
  \<^verbatim>\<open>uuid4().hex\<close>, \<open>new_id\<close> the identifier the database generates for a notice,
  \<open>now\<close> the timestamp the database fills in.
\<close>

definition create_class ::
  "fault \<Rightarrow> string \<Rightarrow> int \<Rightarrow> ClassReq \<Rightarrow> db \<Rightarrow> (error + ClassResp) \<times> session" where
  "create_class flt uuid now request_body d =
     (let s0 = enter_scope d;
          stmt = insert_class
                   \<lparr>class_id = uuid, class_name = req_className request_body,
                    teacher_id = req_teacherId request_body, created_at = now\<rparr>
      in case session_execute flt stmt s0 of
           (None, s1) \<Rightarrow>
             (Inl ClassCreationFailed, exit_scope False (session_rollback s1))
         | (Some rows, s1) \<Rightarrow>
             (case session_commit flt s1 of
                (False, s2) \<Rightarrow>
                  (Inl ClassCreationFailed, exit_scope False (session_rollback s2))
              | (True, s2) \<Rightarrow>
                  (case scalar rows of
                     None \<Rightarrow> Inl AttributeError
                   | Some result \<Rightarrow> Inr (class_resp result),
                   exit_scope True s2)))"

definition create_class_notice ::
  "fault \<Rightarrow> int \<Rightarrow> int \<Rightarrow> string \<Rightarrow> ClassNoticeReq \<Rightarrow> db
     \<Rightarrow> (error + ClassNoticeResp) \<times> session" where
  "create_class_notice flt new_id now cid request_body d =
     (let s0 = enter_scope d;
          stmt = insert_notice
                   \<lparr>notice_id = new_id, notice_class_id = cid,
                    notice_message = req_message request_body,
                    notice_created_at = now, notice_updated_at = now\<rparr>
      in case session_execute flt stmt s0 of
           (None, s1) \<Rightarrow>
             (Inl ClassNoticeCreationFailed, exit_scope False (session_rollback s1))
         | (Some rows, s1) \<Rightarrow>
             (case session_commit flt s1 of
                (False, s2) \<Rightarrow>
                  (Inl ClassNoticeCreationFailed, exit_scope False (session_rollback s2))
              | (True, s2) \<Rightarrow>
                  (case scalar rows of
                     None \<Rightarrow> Inl AttributeError
                   | Some result \<Rightarrow> Inr (notice_resp result),
                   exit_scope True s2)))"

definition read_class_notice_list ::
  "string \<Rightarrow> db \<Rightarrow> error + ClassNoticeResp list" where
  "read_class_notice_list cid d =
     (let result = select_notices cid d
      in if result = [] then Inl ClassNoticeNotFound
         else Inr (map notice_resp result))"

text \<open>In \<^verbatim>\<open>update_class_notice\<close> the test for \<^verbatim>\<open>None\<close> is inside the scope, after
  the commit: the scope is left by the exception.\<close>

definition update_class_notice ::
  "fault \<Rightarrow> int \<Rightarrow> string \<Rightarrow> int \<Rightarrow> ClassNoticeReq \<Rightarrow> db
     \<Rightarrow> (error + ClassNoticeResp) \<times> session" where
  "update_class_notice flt now cid nid request_body d =
     (let s0 = enter_scope d;
          stmt = update_notice nid cid (req_message request_body) now
      in case session_execute flt stmt s0 of
           (None, s1) \<Rightarrow>
             (Inl ClassNoticeUpdateFailed, exit_scope False (session_rollback s1))
         | (Some rows, s1) \<Rightarrow>
             (case session_commit flt s1 of
                (False, s2) \<Rightarrow>
                  (Inl ClassNoticeUpdateFailed, exit_scope False (session_rollback s2))
              | (True, s2) \<Rightarrow>
                  (case scalar rows of
                     None \<Rightarrow> (Inl ClassNoticeNotFound, exit_scope False s2)
                   | Some result \<Rightarrow> (Inr (notice_resp result), exit_scope True s2))))"

text \<open>In \<^verbatim>\<open>delete_class_notice\<close> the test for \<^verbatim>\<open>None\<close> is after the scope.\<close>

definition delete_class_notice ::
  "fault \<Rightarrow> string \<Rightarrow> int \<Rightarrow> db \<Rightarrow> (error + ClassNoticeResp) \<times> session" where
  "delete_class_notice flt cid nid d =
     (let s0 = enter_scope d;
          stmt = delete_notice nid cid
      in case session_execute flt stmt s0 of
           (None, s1) \<Rightarrow>
             (Inl ClassNoticeDeleteFailed, exit_scope False (session_rollback s1))
         | (Some rows, s1) \<Rightarrow>
             (case session_commit flt s1 of
                (False, s2) \<Rightarrow>
                  (Inl ClassNoticeDeleteFailed, exit_scope False (session_rollback s2))
              | (True, s2) \<Rightarrow>
                  (case scalar rows of
                     None \<Rightarrow> Inl ClassNoticeNotFound
                   | Some result \<Rightarrow> Inr (notice_resp result),
                   exit_scope True s2)))"

section \<open>Sample data\<close>

text \<open>
  Concrete inputs for the instances below: a key builder that joins the operation name
  and the arguments with colons (any function of this type would do: the handlers only
  compare the keys it returns), an empty database, and a database with one class and
  three notices, two of them of that class.
\<close>

definition sample_key_builder :: "string \<Rightarrow> string list \<Rightarrow> string" where
  "sample_key_builder operation args = concat (operation # map ((#) CHR '':'') args)"

definition empty_db :: db where
  "empty_db = \<lparr>classes = [], notices = []\<rparr>"

definition algebra :: Class where
  "algebra = \<lparr>class_id = ''c1'', class_name = ''Algebra I'',
              teacher_id = ''teacher-42'', created_at = 1\<rparr>"

definition notice1 :: ClassNotice where
  "notice1 = \<lparr>notice_id = 1, notice_class_id = ''c1'', notice_message = ''first'',
              notice_created_at = 10, notice_updated_at = 10\<rparr>"

definition notice2 :: ClassNotice where
  "notice2 = \<lparr>notice_id = 2, notice_class_id = ''c1'', notice_message = ''second'',
              notice_created_at = 20, notice_updated_at = 25\<rparr>"

definition notice3 :: ClassNotice where
  "notice3 = \<lparr>notice_id = 3, notice_class_id = ''c2'', notice_message = ''other'',
              notice_created_at = 15, notice_updated_at = 15\<rparr>"

definition sample_db :: db where
  "sample_db = \<lparr>classes = [algebra], notices = [notice1, notice2, notice3]\<rparr>"


section \<open>Properties of the cache\<close>

text \<open>
  C7. A value stored under a key with a time to live is what \<^verbatim>\<open>get\<close> returns for that
  key at every time before the expiry \<open>now + ttl\<close>; from the expiry on, \<^verbatim>\<open>get\<close>
  returns \<^verbatim>\<open>None\<close> and \<^verbatim>\<open>exists\<close> is false; and whatever the cache held under the
  key before, after \<^verbatim>\<open>set\<close> it holds the new value with the new expiry.
\<close>

theorem redis_cache_round_trip:
  "(t < now + ttl \<longrightarrow> redis_cache_get (redis_cache_set cache K V ttl now) K t = V)
   \<and> (now + ttl \<le> t \<longrightarrow>
        redis_cache_get (redis_cache_set cache K V ttl now) K t = PyNone
        \<and> \<not> redis_cache_exists (redis_cache_set cache K V ttl now) K t)
   \<and> redis_cache_set cache K V ttl now K = Some (V, now + ttl)"
  by (simp add: redis_cache_get_def redis_cache_set_def redis_cache_exists_def)

theorem redis_cache_round_trip_witness:
  "(59 < (0::int) + 60 \<and>
     redis_cache_get
       (redis_cache_set (Map.empty(''k'' \<mapsto> (PyNone, 5))) ''k'' (PyClassList []) 60 0)
       ''k'' 59 = PyClassList [])
   \<and> ((0::int) + 60 \<le> 60 \<and>
     redis_cache_get
       (redis_cache_set (Map.empty(''k'' \<mapsto> (PyNone, 5))) ''k'' (PyClassList []) 60 0)
       ''k'' 60 = PyNone
     \<and> \<not> redis_cache_exists
           (redis_cache_set (Map.empty(''k'' \<mapsto> (PyNone, 5))) ''k'' (PyClassList []) 60 0)
           ''k'' 60)
   \<and> redis_cache_set (Map.empty(''k'' \<mapsto> (PyNone, 5))) ''k'' (PyClassList []) 60 0 ''k''
       = Some (PyClassList [], 60)"
  using redis_cache_round_trip
          [of 59 0 60 "Map.empty(''k'' \<mapsto> (PyNone, 5))" "''k''" "PyClassList []"]
        redis_cache_round_trip
          [of 60 0 60 "Map.empty(''k'' \<mapsto> (PyNone, 5))" "''k''" "PyClassList []"]
  by simp


section \<open>Reads through the cache\<close>

lemmas redis_defs = redis_cache_get_def redis_cache_exists_def redis_cache_set_def

text \<open>
  C1. \<^verbatim>\<open>read_class\<close> on a \<open>class_id\<close> that matches no row, with a cold cache: the
  handler answers Not Found after one database query, and the cache it leaves holds an
  entry for the key, with the value \<^verbatim>\<open>None\<close> and the expiry of a 60 second time to
  live, so that \<^verbatim>\<open>exists\<close> is true for the key afterwards. The \<^verbatim>\<open>set\<close> of
  \<^verbatim>\<open>read_class\<close> is not guarded by the test for \<^verbatim>\<open>None\<close> that guards the one of
  \<^verbatim>\<open>read_class_list\<close>. The next identical read still queries the database, since the
  cached \<^verbatim>\<open>None\<close> is not truthy.
\<close>

theorem read_class_caches_null:
  "read_class kb ''c1'' 0 0 Map.empty empty_db
     = (Inl ClassNotFoundException,
        Map.empty(kb ''read_class'' [''c1''] \<mapsto> (PyNone, 60)), 1)
   \<and> redis_cache_exists (fst (snd (read_class kb ''c1'' 0 0 Map.empty empty_db)))
        (kb ''read_class'' [''c1'']) 1
   \<and> snd (snd (read_class kb ''c1'' 1 1
        (fst (snd (read_class kb ''c1'' 0 0 Map.empty empty_db))) empty_db)) = 1"
  by (simp add: read_class_def redis_defs select_class_def scalar_def empty_db_def Let_def)

text \<open>
  C5, as the claim states it, fails for \<^verbatim>\<open>read_class\<close>: two reads of a class that
  does not exist, one second apart, make two database queries.
\<close>

theorem read_class_twice_counterexample:
  "\<not> (snd (snd (read_class sample_key_builder ''c1'' 0 0 Map.empty empty_db))
       + snd (snd (read_class sample_key_builder ''c1'' 1 1
           (fst (snd (read_class sample_key_builder ''c1'' 0 0 Map.empty empty_db)))
           empty_db)) \<le> 1)"
  by (simp add: read_class_def redis_defs select_class_def scalar_def empty_db_def Let_def)

text \<open>
  C5, amended. Take two calls of the same read, the first with its cache calls at
  \<open>t1\<close> and \<open>t2\<close>, the second at \<open>t3 \<le> t4\<close>, less than 60 seconds after \<open>t2\<close>, on
  the cache the first call left and on any database. For \<^verbatim>\<open>read_class_list\<close>, and for
  \<^verbatim>\<open>read_class\<close> when the database of the first call has a row for the \<open>class_id\<close>,
  the two calls open at most one database session, and when the first call opened one,
  the second opens none, returns the same response and leaves the cache as it was.
\<close>

theorem read_twice_within_ttl:
  assumes "t3 \<le> t4" and "t4 < t2 + 60"
  shows "(case read_class_list kb t1 t2 cache d of (o1, c1, q1) \<Rightarrow>
            case read_class_list kb t3 t4 c1 d' of (o2, c2, q2) \<Rightarrow>
              q1 + q2 \<le> 1 \<and> (q1 = 1 \<longrightarrow> q2 = 0 \<and> o2 = o1 \<and> c2 = c1))
         \<and> (select_class cid d \<noteq> [] \<longrightarrow>
             (case read_class kb cid t1 t2 cache d of (o1, c1, q1) \<Rightarrow>
                case read_class kb cid t3 t4 c1 d' of (o2, c2, q2) \<Rightarrow>
                  q1 + q2 \<le> 1 \<and> (q1 = 1 \<longrightarrow> q2 = 0 \<and> o2 = o1 \<and> c2 = c1)))"
proof -
  have "case read_class_list kb t1 t2 cache d of (o1, c1, q1) \<Rightarrow>
            case read_class_list kb t3 t4 c1 d' of (o2, c2, q2) \<Rightarrow>
              q1 + q2 \<le> 1 \<and> (q1 = 1 \<longrightarrow> q2 = 0 \<and> o2 = o1 \<and> c2 = c1)"
    using assms by (simp add: read_class_list_def redis_defs Let_def)
  moreover have "case read_class kb cid t1 t2 cache d of (o1, c1, q1) \<Rightarrow>
                case read_class kb cid t3 t4 c1 d' of (o2, c2, q2) \<Rightarrow>
                  q1 + q2 \<le> 1 \<and> (q1 = 1 \<longrightarrow> q2 = 0 \<and> o2 = o1 \<and> c2 = c1)"
    if "select_class cid d \<noteq> []"
    using assms that
    by (cases "select_class cid d") (simp_all add: read_class_def redis_defs Let_def scalar_def)
  ultimately show ?thesis by blast
qed

text \<open>The instance: a cold cache, the first call at time 0, the second at times 58 and
  59, on a database that has lost its rows in between.\<close>

theorem read_twice_within_ttl_witness:
  "read_class_list sample_key_builder 0 0 Map.empty sample_db
     = (Inr [class_resp algebra],
        Map.empty(''read_class_list'' \<mapsto> (PyClassList [algebra], 60)), 1)
   \<and> read_class_list sample_key_builder 58 59
        (Map.empty(''read_class_list'' \<mapsto> (PyClassList [algebra], 60))) empty_db
     = (Inr [class_resp algebra],
        Map.empty(''read_class_list'' \<mapsto> (PyClassList [algebra], 60)), 0)
   \<and> read_class sample_key_builder ''c1'' 0 0 Map.empty sample_db
     = (Inr (class_resp algebra),
        Map.empty(''read_class:c1'' \<mapsto> (PyClass algebra, 60)), 1)
   \<and> read_class sample_key_builder ''c1'' 58 59
        (Map.empty(''read_class:c1'' \<mapsto> (PyClass algebra, 60))) empty_db
     = (Inr (class_resp algebra),
        Map.empty(''read_class:c1'' \<mapsto> (PyClass algebra, 60)), 0)"
proof -
  have l1: "read_class_list sample_key_builder 0 0 Map.empty sample_db
     = (Inr [class_resp algebra],
        Map.empty(''read_class_list'' \<mapsto> (PyClassList [algebra], 60)), 1)"
    by (simp add: read_class_list_def redis_defs Let_def sample_db_def sample_key_builder_def)
  have c1: "read_class sample_key_builder ''c1'' 0 0 Map.empty sample_db
     = (Inr (class_resp algebra),
        Map.empty(''read_class:c1'' \<mapsto> (PyClass algebra, 60)), 1)"
    by (simp add: read_class_def redis_defs Let_def sample_db_def sample_key_builder_def
        select_class_def scalar_def algebra_def)
  have s: "select_class ''c1'' sample_db \<noteq> []"
    by (simp add: select_class_def sample_db_def algebra_def)
  have t: "(58::int) \<le> 59" "(59::int) < 0 + 60" by simp_all
  show ?thesis
    using read_twice_within_ttl
            [where kb = sample_key_builder and cache = Map.empty and d = sample_db
               and d' = empty_db and cid = "''c1''" and ?t1.0 = 0 and ?t2.0 = 0
               and ?t3.0 = 58 and ?t4.0 = 59] s t
    by (auto simp: l1 c1)
qed


text \<open>
  Where \<^verbatim>\<open>read_class_list\<close> can raise \<^verbatim>\<open>ClassNotFoundException\<close>. On the database
  path (no live entry when \<^verbatim>\<open>exists\<close> runs) it never does: it answers with the list
  of all classes, empty or not, after one database query, and stores that list for 60
  seconds. On the cache path it does exactly when \<^verbatim>\<open>get\<close> returns \<^verbatim>\<open>None\<close>.
\<close>

lemma read_class_list_not_found_iff:
  "(\<not> redis_cache_exists cache (kb ''read_class_list'' []) t1 \<longrightarrow>
      read_class_list kb t1 t2 cache d =
        (Inr (map class_resp (classes d)),
         redis_cache_set cache (kb ''read_class_list'' []) (PyClassList (classes d)) 60 t2,
         1))
   \<and> (redis_cache_exists cache (kb ''read_class_list'' []) t1 \<longrightarrow>
        (fst (read_class_list kb t1 t2 cache d) = Inl ClassNotFoundException
           \<longleftrightarrow> redis_cache_get cache (kb ''read_class_list'' []) t2 = PyNone))"
  by (cases "redis_cache_get cache (kb ''read_class_list'' []) t2")
     (simp_all add: read_class_list_def Let_def)

text \<open>
  C9. \<^verbatim>\<open>read_class_list\<close> does reach its \<^verbatim>\<open>ClassNotFoundException\<close> branch, by
  testing \<^verbatim>\<open>exists\<close> and then trusting \<^verbatim>\<open>get\<close>. A first call at time 0 on a cold
  cache reads the one class of the sample database and stores the list until time 60. In
  a second call whose \<^verbatim>\<open>exists\<close> runs at time 59 and whose \<^verbatim>\<open>get\<close> runs at time 60,
  the entry is there for the test and gone for the read: the handler takes the cache
  path, reads \<^verbatim>\<open>None\<close> and raises \<^verbatim>\<open>ClassNotFoundException\<close> without a database
  query, although the table holds a class and the database path would have returned it.
\<close>

theorem read_class_list_expiry_race:
  "read_class_list sample_key_builder 0 0 Map.empty sample_db
     = (Inr [class_resp algebra],
        Map.empty(''read_class_list'' \<mapsto> (PyClassList [algebra], 60)), 1)
   \<and> read_class_list sample_key_builder 59 60
        (Map.empty(''read_class_list'' \<mapsto> (PyClassList [algebra], 60))) sample_db
     = (Inl ClassNotFoundException,
        Map.empty(''read_class_list'' \<mapsto> (PyClassList [algebra], 60)), 0)"
  by (simp add: read_class_list_def redis_defs sample_db_def sample_key_builder_def Let_def)


section \<open>Writes in a unit of work\<close>

lemmas session_defs =
  enter_scope_def exit_scope_def session_execute_def session_commit_def session_rollback_def

text \<open>
  C2. When the store rejects the statement or the commit of a write handler, the handler
  calls \<^verbatim>\<open>rollback\<close> on the session and then leaves the scope by the narrow error of
  its operation; the committed database and the working copy are then the database the
  request started from.
\<close>

theorem write_failure_rolls_back:
  assumes "flt \<noteq> NoFault"
  shows "create_class flt uuid now creq d =
           (Inl ClassCreationFailed,
            \<lparr>committed = d, working = d,
             events = (if flt = ExecuteRaises
                       then [ScopeEnter, Execute, Rollback, ScopeExit False]
                       else [ScopeEnter, Execute, Commit, Rollback, ScopeExit False])\<rparr>)
       \<and> create_class_notice flt new_id now cid nreq d =
           (Inl ClassNoticeCreationFailed,
            \<lparr>committed = d, working = d,
             events = (if flt = ExecuteRaises
                       then [ScopeEnter, Execute, Rollback, ScopeExit False]
                       else [ScopeEnter, Execute, Commit, Rollback, ScopeExit False])\<rparr>)
       \<and> update_class_notice flt now cid nid nreq d =
           (Inl ClassNoticeUpdateFailed,
            \<lparr>committed = d, working = d,
             events = (if flt = ExecuteRaises
                       then [ScopeEnter, Execute, Rollback, ScopeExit False]
                       else [ScopeEnter, Execute, Commit, Rollback, ScopeExit False])\<rparr>)
       \<and> delete_class_notice flt cid nid d =
           (Inl ClassNoticeDeleteFailed,
            \<lparr>committed = d, working = d,
             events = (if flt = ExecuteRaises
                       then [ScopeEnter, Execute, Rollback, ScopeExit False]
                       else [ScopeEnter, Execute, Commit, Rollback, ScopeExit False])\<rparr>)"
  using assms
  by (cases flt)
     (simp_all add: create_class_def create_class_notice_def update_class_notice_def
        delete_class_notice_def session_defs insert_class_def insert_notice_def
        update_notice_def delete_notice_def Let_def)

text \<open>The instance: the commit of each write on the sample database is rejected.\<close>

theorem write_failure_rolls_back_witness:
  "create_class CommitRaises ''u1'' 30
       \<lparr>req_className = ''Algebra II'', req_teacherId = ''teacher-42''\<rparr> sample_db =
     (Inl ClassCreationFailed,
      \<lparr>committed = sample_db, working = sample_db,
       events = [ScopeEnter, Execute, Commit, Rollback, ScopeExit False]\<rparr>)
   \<and> create_class_notice CommitRaises 4 30 ''c1'' \<lparr>req_message = ''new''\<rparr> sample_db =
     (Inl ClassNoticeCreationFailed,
      \<lparr>committed = sample_db, working = sample_db,
       events = [ScopeEnter, Execute, Commit, Rollback, ScopeExit False]\<rparr>)
   \<and> update_class_notice CommitRaises 30 ''c1'' 1 \<lparr>req_message = ''new''\<rparr> sample_db =
     (Inl ClassNoticeUpdateFailed,
      \<lparr>committed = sample_db, working = sample_db,
       events = [ScopeEnter, Execute, Commit, Rollback, ScopeExit False]\<rparr>)
   \<and> delete_class_notice CommitRaises ''c1'' 1 sample_db =
     (Inl ClassNoticeDeleteFailed,
      \<lparr>committed = sample_db, working = sample_db,
       events = [ScopeEnter, Execute, Commit, Rollback, ScopeExit False]\<rparr>)"
  using write_failure_rolls_back
          [of CommitRaises "''u1''" 30
              "\<lparr>req_className = ''Algebra II'', req_teacherId = ''teacher-42''\<rparr>"
              sample_db 4 "''c1''" "\<lparr>req_message = ''new''\<rparr>" 1]
  by simp


lemma update_no_match:
  "\<forall>r \<in> set xs. \<not> matches nid cid r \<Longrightarrow>
     map (\<lambda>r. if matches nid cid r
              then r\<lparr>notice_message := msg, notice_updated_at := now\<rparr> else r) xs = xs"
  by (induction xs) auto

text \<open>
  C3. When no notice has the given identifier under the given class, and the store
  rejects nothing, \<^verbatim>\<open>update_class_notice\<close> executes its statement, commits, and only
  then raises \<^verbatim>\<open>ClassNoticeNotFound\<close>: there is no rollback call, and the committed
  database is the one the request started from.
\<close>

theorem update_class_notice_not_found:
  assumes "\<forall>r \<in> set (notices d). \<not> matches nid cid r"
  shows "update_class_notice NoFault now cid nid nreq d =
           (Inl ClassNoticeNotFound,
            \<lparr>committed = d, working = d,
             events = [ScopeEnter, Execute, Commit, ScopeExit False]\<rparr>)"
proof -
  have f: "filter (matches nid cid) (notices d) = []"
    using assms by (simp add: filter_empty_conv)
  show ?thesis
    using assms
    by (simp add: update_class_notice_def session_defs update_notice_def Let_def
        update_no_match f scalar_def)
qed

text \<open>The instance: notice 3 belongs to class c2, not to class c1.\<close>

theorem update_class_notice_not_found_witness:
  "update_class_notice NoFault 30 ''c1'' 3 \<lparr>req_message = ''new''\<rparr> sample_db =
     (Inl ClassNoticeNotFound,
      \<lparr>committed = sample_db, working = sample_db,
       events = [ScopeEnter, Execute, Commit, ScopeExit False]\<rparr>)"
  using update_class_notice_not_found
          [of sample_db 3 "''c1''" 30 "\<lparr>req_message = ''new''\<rparr>"]
  by (simp add: sample_db_def matches_def notice1_def notice2_def notice3_def)


lemma same_id_same_row:
  "distinct (map notice_id xs) \<Longrightarrow> r \<in> set xs \<Longrightarrow> x \<in> set xs \<Longrightarrow>
     notice_id x = notice_id r \<Longrightarrow> x = r"
  by (simp add: distinct_map inj_on_def)

lemma filter_matches_distinct:
  assumes "r \<in> set xs" and "distinct (map notice_id xs)"
  shows "filter (matches (notice_id r) (notice_class_id r)) xs = filter (\<lambda>x. x = r) xs"
    and "filter (\<lambda>x. \<not> matches (notice_id r) (notice_class_id r) x) xs
           = filter (\<lambda>x. x \<noteq> r) xs"
  using same_id_same_row [OF assms(2) assms(1)]
  by (auto intro!: filter_cong simp: matches_def)

lemma filter_eq_distinct:
  "r \<in> set xs \<Longrightarrow> distinct xs \<Longrightarrow> filter (\<lambda>x. x = r) xs = [r]"
  by (induction xs) (auto simp: filter_empty_conv)

text \<open>
  C4. For a notice of the database, whose identifier no other notice has, and a store
  that rejects nothing: \<^verbatim>\<open>delete_class_notice\<close> with the notice's class and identifier
  returns the notice's identifier, class, message and two timestamps, and commits the
  database without it; the same call on
  the database it leaves raises \<^verbatim>\<open>ClassNoticeNotFound\<close> and changes nothing.
\<close>

theorem delete_class_notice_once:
  assumes "r \<in> set (notices d)" and "distinct (map notice_id (notices d))"
  shows "fst (delete_class_notice NoFault (notice_class_id r) (notice_id r) d)
           = Inr \<lparr>resp_id = notice_id r, resp_classId = notice_class_id r,
                  resp_message = notice_message r,
                  resp_createdAt = notice_created_at r,
                  resp_updatedAt = notice_updated_at r\<rparr>
         \<and> committed (snd (delete_class_notice NoFault (notice_class_id r) (notice_id r) d))
           = d\<lparr>notices := filter (\<lambda>x. x \<noteq> r) (notices d)\<rparr>
         \<and> delete_class_notice NoFault (notice_class_id r) (notice_id r)
             (d\<lparr>notices := filter (\<lambda>x. x \<noteq> r) (notices d)\<rparr>)
           = (Inl ClassNoticeNotFound,
              \<lparr>committed = d\<lparr>notices := filter (\<lambda>x. x \<noteq> r) (notices d)\<rparr>,
               working = d\<lparr>notices := filter (\<lambda>x. x \<noteq> r) (notices d)\<rparr>,
               events = [ScopeEnter, Execute, Commit, ScopeExit True]\<rparr>)"
proof -
  let ?m = "matches (notice_id r) (notice_class_id r)"
  have dist: "distinct (notices d)"
    using assms(2) by (simp add: distinct_map)
  have hit: "filter ?m (notices d) = [r]"
    using filter_matches_distinct(1) [OF assms] filter_eq_distinct [OF assms(1) dist]
    by simp
  have rest: "filter (\<lambda>x. \<not> ?m x) (notices d) = filter (\<lambda>x. x \<noteq> r) (notices d)"
    using filter_matches_distinct(2) [OF assms] .
  have gone: "filter ?m (filter (\<lambda>x. x \<noteq> r) (notices d)) = []"
    by (auto simp: filter_empty_conv matches_def dest: same_id_same_row [OF assms(2) assms(1)])
  have idem: "filter (\<lambda>x. \<not> ?m x) (filter (\<lambda>x. x \<noteq> r) (notices d))
                = filter (\<lambda>x. x \<noteq> r) (notices d)"
    using gone by (auto simp: filter_empty_conv intro!: filter_cong)
  show ?thesis
    by (simp add: delete_class_notice_def session_defs delete_notice_def Let_def
        scalar_def notice_resp_def hit rest gone idem del: filter_filter)
qed

text \<open>The instance: the first notice of the sample database is deleted, and is not found
  the second time.\<close>

theorem delete_class_notice_once_witness:
  "fst (delete_class_notice NoFault ''c1'' 1 sample_db)
       = Inr \<lparr>resp_id = 1, resp_classId = ''c1'', resp_message = ''first'',
              resp_createdAt = 10, resp_updatedAt = 10\<rparr>
   \<and> committed (snd (delete_class_notice NoFault ''c1'' 1 sample_db))
       = \<lparr>classes = [algebra], notices = [notice2, notice3]\<rparr>
   \<and> fst (delete_class_notice NoFault ''c1'' 1
            \<lparr>classes = [algebra], notices = [notice2, notice3]\<rparr>)
       = Inl ClassNoticeNotFound"
proof -
  have m: "notice1 \<in> set (notices sample_db)"
    and u: "distinct (map notice_id (notices sample_db))"
    by (simp_all add: sample_db_def notice1_def notice2_def notice3_def)
  have k: "notice_class_id notice1 = ''c1''" "notice_id notice1 = 1"
    "notice_message notice1 = ''first''" "notice_created_at notice1 = 10"
    "notice_updated_at notice1 = 10"
    by (simp_all add: notice1_def)
  have f: "sample_db\<lparr>notices := filter (\<lambda>x. x \<noteq> notice1) (notices sample_db)\<rparr>
             = \<lparr>classes = [algebra], notices = [notice2, notice3]\<rparr>"
    by (simp add: sample_db_def notice1_def notice2_def notice3_def)
  show ?thesis
    using delete_class_notice_once [OF m u] by (simp add: k f)
qed


section \<open>The list of notices\<close>


lemma sorted_desc:
  "sorted (map (\<lambda>r. - f r) xs) \<Longrightarrow> sorted_wrt (\<lambda>a b. b \<le> a) (map (f :: 'a \<Rightarrow> int) xs)"
  by (induction xs) auto

lemma select_notices_sorted:
  "sorted_wrt (\<lambda>a b. b \<le> a) (map notice_created_at (select_notices cid d))"
  unfolding select_notices_def by (rule sorted_desc) (rule sorted_sort_key)

lemma select_notices_set:
  "set (select_notices cid d) = {r \<in> set (notices d). notice_class_id r = cid}"
  by (auto simp: select_notices_def)

text \<open>
  C8. \<^verbatim>\<open>read_class_notice_list\<close> answers with a list exactly when the class has a
  notice, and the list it answers with is ordered by creation timestamp, latest first,
  and holds the notices of that class and no other.
\<close>

theorem read_class_notice_list_ordered:
  "((\<exists>resps. read_class_notice_list cid d = Inr resps)
      \<longleftrightarrow> (\<exists>r \<in> set (notices d). notice_class_id r = cid))
   \<and> (read_class_notice_list cid d = Inr resps \<longrightarrow>
        sorted_wrt (\<lambda>a b. resp_createdAt b \<le> resp_createdAt a) resps
        \<and> set resps = notice_resp ` {r \<in> set (notices d). notice_class_id r = cid})"
proof -
  have e: "(select_notices cid d = []) \<longleftrightarrow> \<not> (\<exists>r \<in> set (notices d). notice_class_id r = cid)"
    using select_notices_set [of cid d] by (auto simp flip: set_empty)
  have ret: "(\<exists>resps. read_class_notice_list cid d = Inr resps)
      \<longleftrightarrow> (\<exists>r \<in> set (notices d). notice_class_id r = cid)"
    using e by (simp add: read_class_notice_list_def Let_def)
  have ord: "sorted_wrt (\<lambda>a b. resp_createdAt b \<le> resp_createdAt a) resps
        \<and> set resps = notice_resp ` {r \<in> set (notices d). notice_class_id r = cid}"
    if a: "read_class_notice_list cid d = Inr resps"
  proof -
    from a have r: "resps = map notice_resp (select_notices cid d)"
      by (auto simp: read_class_notice_list_def Let_def split: if_splits)
    have c: "resp_createdAt (notice_resp x) = notice_created_at x" for x
      by (simp add: notice_resp_def)
    have "sorted_wrt (\<lambda>a b. resp_createdAt b \<le> resp_createdAt a) resps"
      using select_notices_sorted [of cid d] by (simp add: r sorted_wrt_map c)
    moreover have "set resps = notice_resp ` {r \<in> set (notices d). notice_class_id r = cid}"
      by (simp add: r select_notices_set)
    ultimately show ?thesis by simp
  qed
  from ret ord show ?thesis by blast
qed

text \<open>The instance: the two notices of class c1, the later one first.\<close>

theorem read_class_notice_list_ordered_witness:
  "read_class_notice_list ''c1'' sample_db = Inr [notice_resp notice2, notice_resp notice1]
   \<and> sorted_wrt (\<lambda>a b. resp_createdAt b \<le> resp_createdAt a)
        [notice_resp notice2, notice_resp notice1]
   \<and> set [notice_resp notice2, notice_resp notice1]
        = notice_resp ` {r \<in> set (notices sample_db). notice_class_id r = ''c1''}"
proof -
  have e: "read_class_notice_list ''c1'' sample_db
             = Inr [notice_resp notice2, notice_resp notice1]"
    by (simp add: read_class_notice_list_def select_notices_def sample_db_def Let_def
        notice1_def notice2_def notice3_def)
  show ?thesis
    using read_class_notice_list_ordered
            [of "''c1''" sample_db "[notice_resp notice2, notice_resp notice1]"] e
    by blast
qed

text \<open>
  C10. When no notice of the database belongs to the class, \<^verbatim>\<open>read_class_notice_list\<close>
  raises \<^verbatim>\<open>ClassNoticeNotFound\<close>: the empty result is not truthy.
\<close>

theorem read_class_notice_list_empty:
  assumes "\<forall>r \<in> set (notices d). notice_class_id r \<noteq> cid"
  shows "read_class_notice_list cid d = Inl ClassNoticeNotFound"
proof -
  from assms have "filter (\<lambda>r. notice_class_id r = cid) (notices d) = []"
    by (simp add: filter_empty_conv)
  then show ?thesis by (simp add: read_class_notice_list_def select_notices_def)
qed

text \<open>The instance: class c3 has no notice in the sample database.\<close>

theorem read_class_notice_list_empty_witness:
  "read_class_notice_list ''c3'' sample_db = Inl ClassNoticeNotFound"
  using read_class_notice_list_empty [of sample_db "''c3''"]
  by (simp add: sample_db_def notice1_def notice2_def notice3_def)

end
